theory Spec2Isabelle
  imports Main
begin

section \<open>Resource model (package models)\<close>

text \<open>
  Timestamps are whole seconds of UTC time: the DATETIME columns of the table have a
  resolution of one second, and \<open>UTC_TIMESTAMP()\<close> returns the second in which the
  statement started.
\<close>

type_synonym time = int

text \<open>
  Modelled from the spec: the struct \<open>models.Snippet\<close> (pkg/models/models.go is not among
  the sources): an identifier, a title, a content, and the created and expires timestamps.
  The fields are those \<open>SnippetModel.Get\<close> fills: \<open>row.Scan(&s.ID, &s.Title, &s.Content,
  &s.Created, &s.Expires)\<close>.
\<close>

record Snippet =
  ID :: int
  Title :: string
  Content :: string
  Created :: time
  Expires :: time

text \<open>
  Modelled from the spec: the sentinel \<open>models.ErrNoRecord\<close> (pkg/models/models.go is not
  among the sources), a value of its own that is compared by identity. It stands here
  beside the other error values that reach the data access object and its callers:
  \<open>ErrNoRows\<close> is \<open>sql.ErrNoRows\<close>, the "no rows" signal of the storage layer, and a
  \<open>DriverError\<close> is any other failure of the storage layer, carried as the driver reports
  it: a MySQL error with its number and message, or a failure of the connection.
\<close>

datatype driver_error = MySQLError nat string | ConnError string

datatype error = ErrNoRows | ErrNoRecord | DriverError driver_error

section \<open>The storage layer (database/sql over MySQL)\<close>

text \<open>
  The database is the environment of the data access object. Its state is the table
  \<open>snippets\<close> (rows in insertion order), the next value of the auto-assigned key, the
  current time, the failures the next calls will meet (none when \<open>None\<close>), and the list of
  every statement text submitted so far with the values bound to its placeholders. Time
  passes between two calls only as the state says: a call reads the clock and leaves it.
\<close>

record row =
  row_id :: int
  row_title :: string
  row_content :: string
  row_created :: time
  row_expires :: time

datatype sqlval = SqlInt int | SqlText string

record database =
  snippets_table :: "row list"
  auto_increment :: int
  utc_timestamp :: time
  exec_fault :: "driver_error option"
  last_insert_id_fault :: "driver_error option"
  query_fault :: "driver_error option"
  submitted :: "(string \<times> sqlval list) list"

text \<open>The two statement texts of package mysql, byte for byte (raw string literals).\<close>

definition insert_stmt :: string where
  "insert_stmt =
     ''INSERT INTO snippets (title, content, created, expires)'' @
     [CHR 0x0A, CHR 0x09, CHR 0x09, CHR 0x09] @
     ''  VALUES(?, ?, UTC_TIMESTAMP(), DATE_ADD(UTC_TIMESTAMP(), INTERVAL ? DAY))''"

definition select_stmt :: string where
  "select_stmt =
     ''SELECT id, title, content, created, expires FROM snippets'' @
     [CHR 0x0A, CHR 0x09] @
     ''WHERE expires > UTC_TIMESTAMP() AND id = ?''"

text \<open>Decimal digits, shared by the storage layer and by \<open>strconv.Atoi\<close>.\<close>

definition is_digit :: "char \<Rightarrow> bool" where
  "is_digit c = (48 \<le> (of_char c :: nat) \<and> (of_char c :: nat) \<le> 57)"

definition digits_value :: "string \<Rightarrow> nat" where
  "digits_value s = foldl (\<lambda>n c. n * 10 + ((of_char c :: nat) - 48)) 0 s"

text \<open>
  The value bound to \<open>INTERVAL ? DAY\<close> arrives as text. A non-empty string of decimal
  digits is that number of days; the storage layer's reading of any other text is not
  modelled, and the statement is rejected (error 1292, an incorrect integer value).
\<close>

definition interval_days :: "string \<Rightarrow> int option" where
  "interval_days s =
     (if s \<noteq> [] \<and> list_all is_digit s then Some (int (digits_value s)) else None)"

definition seconds_per_day :: int where
  "seconds_per_day = 86400"

text \<open>\<open>DATE_ADD(t, INTERVAL n DAY)\<close> on UTC timestamps.\<close>

definition DATE_ADD_days :: "time \<Rightarrow> int \<Rightarrow> time" where
  "DATE_ADD_days t n = t + n * seconds_per_day"

text \<open>
  \<open>sql.Result\<close>: what \<open>LastInsertId()\<close> will return. \<open>sql.Row\<close>: the deferred error of
  the query, or the rows it selected.
\<close>

type_synonym Result = "driver_error + int"

type_synonym Row = "driver_error + row list"

definition submit :: "database \<Rightarrow> string \<Rightarrow> sqlval list \<Rightarrow> database" where
  "submit db stmt args = db\<lparr>submitted := submitted db @ [(stmt, args)]\<rparr>"

text \<open>
  \<open>DB.Exec(stmt, args...)\<close>. The storage layer understands the INSERT statement of this
  program: it appends one row whose \<open>created\<close> is the current time and whose \<open>expires\<close> is
  the current time plus the bound number of days, under the next key. Any other statement
  text is a syntax error (1064), a wrong list of values is error 1210.
\<close>

definition DB_Exec :: "database \<Rightarrow> string \<Rightarrow> sqlval list \<Rightarrow> (driver_error + Result) \<times> database" where
  "DB_Exec db stmt args =
     (let db1 = submit db stmt args in
      case exec_fault db of
        Some e \<Rightarrow> (Inl e, db1)
      | None \<Rightarrow>
          if stmt \<noteq> insert_stmt then (Inl (MySQLError 1064 ''syntax error''), db1)
          else
            (case args of
               [SqlText title, SqlText content, SqlText days] \<Rightarrow>
                 (case interval_days days of
                    None \<Rightarrow> (Inl (MySQLError 1292 ''incorrect INTEGER value''), db1)
                  | Some n \<Rightarrow>
                      (Inr (case last_insert_id_fault db of
                              Some e \<Rightarrow> Inl e
                            | None \<Rightarrow> Inr (auto_increment db)),
                       db1\<lparr>snippets_table := snippets_table db @
                              [\<lparr>row_id = auto_increment db, row_title = title,
                                row_content = content, row_created = utc_timestamp db,
                                row_expires = DATE_ADD_days (utc_timestamp db) n\<rparr>],
                            auto_increment := auto_increment db + 1\<rparr>))
             | _ \<Rightarrow> (Inl (MySQLError 1210 ''incorrect arguments''), db1)))"

definition LastInsertId :: "Result \<Rightarrow> driver_error + int" where
  "LastInsertId result = result"

text \<open>
  \<open>DB.QueryRow(stmt, args...)\<close>. The storage layer understands the SELECT statement of
  this program: the rows whose \<open>expires\<close> is later than the current time and whose \<open>id\<close> is
  the bound value. A failure is kept in the \<open>Row\<close> until \<open>Scan\<close>.
\<close>

definition DB_QueryRow :: "database \<Rightarrow> string \<Rightarrow> sqlval list \<Rightarrow> Row \<times> database" where
  "DB_QueryRow db stmt args =
     (let db1 = submit db stmt args in
      case query_fault db of
        Some e \<Rightarrow> (Inl e, db1)
      | None \<Rightarrow>
          if stmt \<noteq> select_stmt then (Inl (MySQLError 1064 ''syntax error''), db1)
          else
            (case args of
               [SqlInt i] \<Rightarrow>
                 (Inr (filter (\<lambda>r. row_expires r > utc_timestamp db \<and> row_id r = i)
                         (snippets_table db)), db1)
             | _ \<Rightarrow> (Inl (MySQLError 1210 ''incorrect arguments''), db1)))"

text \<open>
  \<open>Row.Scan(&s.ID, &s.Title, &s.Content, &s.Created, &s.Expires)\<close>: the deferred
  error if there is one, \<open>sql.ErrNoRows\<close> when the query selected no row; otherwise the
  columns of the first row are copied into the fields the pointers name.
\<close>

definition Scan :: "Row \<Rightarrow> Snippet \<Rightarrow> error + Snippet" where
  "Scan rw s =
     (case rw of
        Inl e \<Rightarrow> Inl (DriverError e)
      | Inr [] \<Rightarrow> Inl ErrNoRows
      | Inr (r # _) \<Rightarrow>
          Inr (s\<lparr>ID := row_id r, Title := row_title r, Content := row_content r,
                 Created := row_created r, Expires := row_expires r\<rparr>))"

section \<open>The data access object (package mysql, SnippetModel)\<close>

text \<open>
  The receiver \<open>m\<close> is the connection pool, that is, the database; each operation returns
  its result and the database after it. A result is the error (\<open>Inl\<close>) when the error
  returned is not nil, and the value otherwise. The conversion \<open>int(id)\<close> of Insert is the
  identity on a 64-bit platform.
\<close>

definition Insert :: "database \<Rightarrow> string \<Rightarrow> string \<Rightarrow> string \<Rightarrow> (error + int) \<times> database" where
  "Insert m title content expires =
     (let stmt = insert_stmt in
      case DB_Exec m stmt [SqlText title, SqlText content, SqlText expires] of
        (Inl err, m') \<Rightarrow> (Inl (DriverError err), m')
      | (Inr result, m') \<Rightarrow>
          (case LastInsertId result of
             Inl err \<Rightarrow> (Inl (DriverError err), m')
           | Inr i \<Rightarrow> (Inr i, m')))"

text \<open>\<open>&models.Snippet{}\<close>: every field has its zero value.\<close>

definition zero_Snippet :: Snippet where
  "zero_Snippet = \<lparr>ID = 0, Title = [], Content = [], Created = 0, Expires = 0\<rparr>"

definition Get :: "database \<Rightarrow> int \<Rightarrow> (error + Snippet) \<times> database" where
  "Get m i =
     (let stmt = select_stmt in
      case DB_QueryRow m stmt [SqlInt i] of
        (rw, m') \<Rightarrow>
          (let s = zero_Snippet in
           case Scan rw s of
             Inl err \<Rightarrow>
               if err = ErrNoRows then (Inl ErrNoRecord, m')
               else (Inl err, m')
           | Inr s' \<Rightarrow> (Inr s', m')))"

definition Latest :: "database \<Rightarrow> (error + Snippet list) \<times> database" where
  "Latest m = (Inr [], m)"

section \<open>The HTTP boundary (net/http, strconv, fmt)\<close>

text \<open>
  What the handlers read of a request: its method, and the parsed query string
  (\<open>r.URL.Query()\<close>, a key with no entry being absent). Path, body and form values are
  part of the request although no handler below reads them.
\<close>

type_synonym Values = "string \<rightharpoonup> string list"

record Request =
  Method :: string
  URL_Path :: string
  URL_Query :: Values
  Body :: string
  PostForm :: Values

text \<open>\<open>Values.Get\<close>: the first value of the key, the empty string when there is none.\<close>

definition Values_Get :: "Values \<Rightarrow> string \<Rightarrow> string" where
  "Values_Get v key =
     (case v key of
        None \<Rightarrow> []
      | Some [] \<Rightarrow> []
      | Some (x # _) \<Rightarrow> x)"

text \<open>
  The response under construction. \<open>Header\<close> is the header map the handler edits;
  \<open>sent\<close> is the status line once it is written, with the header map as it was at
  that moment (later edits of the map are not sent, and a second status is ignored);
  \<open>body\<close> is the sequence of writes. A write is a byte string, or the \<open>%v\<close> rendering
  of a snippet, which is left symbolic.
\<close>

datatype chunk = Bytes string | FormatV Snippet

record ResponseWriter =
  Header :: "string \<rightharpoonup> string list"
  sent :: "(nat \<times> (string \<rightharpoonup> string list)) option"
  body :: "chunk list"

definition StatusOK :: nat where
  "StatusOK = 200"

definition StatusSeeOther :: nat where
  "StatusSeeOther = 303"

definition StatusNotFound :: nat where
  "StatusNotFound = 404"

definition StatusMethodNotAllowed :: nat where
  "StatusMethodNotAllowed = 405"

definition StatusInternalServerError :: nat where
  "StatusInternalServerError = 500"

text \<open>\<open>http.StatusText\<close>, for the status codes this program uses.\<close>

definition StatusText :: "nat \<Rightarrow> string" where
  "StatusText code =
     (if code = 200 then ''OK''
      else if code = 303 then ''See Other''
      else if code = 404 then ''Not Found''
      else if code = 405 then ''Method Not Allowed''
      else if code = 500 then ''Internal Server Error''
      else [])"

text \<open>\<open>w.Header().Set(key, value)\<close>, for a key in canonical form.\<close>

definition Header_Set :: "ResponseWriter \<Rightarrow> string \<Rightarrow> string \<Rightarrow> ResponseWriter" where
  "Header_Set w key v = w\<lparr>Header := (Header w)(key \<mapsto> [v])\<rparr>"

definition WriteHeader :: "ResponseWriter \<Rightarrow> nat \<Rightarrow> ResponseWriter" where
  "WriteHeader w code =
     (case sent w of
        None \<Rightarrow> w\<lparr>sent := Some (code, Header w)\<rparr>
      | Some _ \<Rightarrow> w)"

text \<open>\<open>w.Write\<close>: a write before any status commits status 200 first.\<close>

definition Write :: "ResponseWriter \<Rightarrow> chunk \<Rightarrow> ResponseWriter" where
  "Write w b =
     (let w1 = (case sent w of None \<Rightarrow> WriteHeader w StatusOK | Some _ \<Rightarrow> w)
      in w1\<lparr>body := body w1 @ [b]\<rparr>)"

text \<open>
  \<open>http.Error(w, msg, code)\<close>: two headers, the status, then the message and a newline
  (\<open>fmt.Fprintln\<close>).
\<close>

definition http_Error :: "ResponseWriter \<Rightarrow> string \<Rightarrow> nat \<Rightarrow> ResponseWriter" where
  "http_Error w msg code =
     (let w1 = Header_Set w ''Content-Type'' ''text/plain; charset=utf-8'';
          w2 = Header_Set w1 ''X-Content-Type-Options'' ''nosniff'';
          w3 = WriteHeader w2 code
      in Write w3 (Bytes (msg @ [CHR 0x0A])))"

fun htmlEscape :: "string \<Rightarrow> string" where
  "htmlEscape [] = []"
| "htmlEscape (c # cs) =
     (if c = CHR ''&'' then ''&amp;''
      else if c = CHR ''<'' then ''&lt;''
      else if c = CHR ''>'' then ''&gt;''
      else if c = CHR 0x22 then ''&#34;''
      else if c = CHR 0x27 then ''&#39;''
      else [c]) @ htmlEscape cs"

text \<open>
  \<open>http.Redirect(w, r, url, code)\<close>, for a \<open>url\<close> that is an absolute path in ASCII
  without dot segments or repeated slashes, which net/http leaves as it is (the only
  kind this program passes): the Location header, a Content-Type for GET and HEAD
  requests when none was set, the status, and a short body for GET requests.
\<close>

definition Redirect :: "ResponseWriter \<Rightarrow> Request \<Rightarrow> string \<Rightarrow> nat \<Rightarrow> ResponseWriter" where
  "Redirect w r url code =
     (let hadCT = (Header w ''Content-Type'' \<noteq> None);
          w1 = Header_Set w ''Location'' url;
          w2 = (if \<not> hadCT \<and> (Method r = ''GET'' \<or> Method r = ''HEAD'')
                then Header_Set w1 ''Content-Type'' ''text/html; charset=utf-8''
                else w1);
          w3 = WriteHeader w2 code
      in if \<not> hadCT \<and> Method r = ''GET''
         then Write w3 (Bytes (''<a href='' @ [CHR 0x22] @ htmlEscape url @ [CHR 0x22] @ ''>'' @
                               StatusText code @ ''</a>.'' @ [CHR 0x0A, CHR 0x0A]))
         else w3)"

text \<open>
  \<open>strconv.Atoi\<close> on a 64-bit platform. The result is \<open>None\<close> when the error returned is
  not nil (a syntax error or a range error: the handlers only test for nil), and the
  number otherwise: an optional sign, then at least one decimal digit and nothing else,
  with a value in the range of \<open>int\<close>.
\<close>

fun sign_split :: "string \<Rightarrow> bool \<times> string" where
  "sign_split [] = (False, [])"
| "sign_split (c # cs) =
     (if c = CHR ''-'' then (True, cs)
      else if c = CHR ''+'' then (False, cs)
      else (False, c # cs))"

definition Atoi :: "string \<Rightarrow> int option" where
  "Atoi s =
     (case sign_split s of
        (neg, ds) \<Rightarrow>
          if ds = [] \<or> \<not> list_all is_digit ds then None
          else
            (let n = int (digits_value ds);
                 v = (if neg then - n else n)
             in if v < - (2 ^ 63) \<or> 2 ^ 63 - 1 < v then None else Some v))"

text \<open>The verb \<open>%d\<close> of \<open>fmt.Sprintf\<close> on an \<open>int\<close>: decimal, with a minus sign if negative.\<close>

fun digits_of_nat :: "nat \<Rightarrow> string" where
  "digits_of_nat n =
     (if n < 10 then [char_of (48 + n)]
      else digits_of_nat (n div 10) @ [char_of (48 + n mod 10)])"

declare digits_of_nat.simps [simp del]

definition fmt_d :: "int \<Rightarrow> string" where
  "fmt_d i = (if i < 0 then CHR ''-'' # digits_of_nat (nat (- i)) else digits_of_nat (nat i))"

section \<open>The application and its handlers (package main)\<close>

text \<open>
  The \<open>application\<close> struct: the two loggers, as the lines they have written (an error
  line is kept as the error it reports), and the snippet model.
\<close>

record application =
  errorLog :: "error list"
  infoLog :: "string list"
  snippets :: database

text \<open>
  Modelled from the spec: the helpers \<open>app.clientError\<close> and \<open>app.serverError\<close>
  (cmd/web/helpers.go is not among the sources). A client error is answered at once with
  the given status and is not logged; a storage error is logged on the error log and
  answered with an opaque 500 that carries no detail of the error. Both answer through
  \<open>http.Error\<close> with the text of the status as the message, the way learnings.md
  describes the sending of an error status.
\<close>

definition clientError :: "application \<Rightarrow> ResponseWriter \<Rightarrow> nat \<Rightarrow> ResponseWriter" where
  "clientError app w status = http_Error w (StatusText status) status"

definition serverError :: "application \<Rightarrow> ResponseWriter \<Rightarrow> error \<Rightarrow> ResponseWriter \<times> application" where
  "serverError app w err =
     (http_Error w (StatusText StatusInternalServerError) StatusInternalServerError,
      app\<lparr>errorLog := errorLog app @ [err]\<rparr>)"

text \<open>\<open>app.notFound\<close>, as learnings.md quotes it.\<close>

definition notFound :: "application \<Rightarrow> ResponseWriter \<Rightarrow> ResponseWriter" where
  "notFound app w = clientError app w StatusNotFound"

subsection \<open>cmd/web/handlers.go\<close>

definition showSnippet :: "application \<Rightarrow> ResponseWriter \<Rightarrow> Request \<Rightarrow> ResponseWriter \<times> application" where
  "showSnippet app w r =
     (case Atoi (Values_Get (URL_Query r) ''id'') of
        None \<Rightarrow> (notFound app w, app)
      | Some i \<Rightarrow>
          if i < 1 then (notFound app w, app)
          else
            (case Get (snippets app) i of
               (Inl err, m') \<Rightarrow>
                 if err = ErrNoRecord then (notFound app w, app\<lparr>snippets := m'\<rparr>)
                 else serverError (app\<lparr>snippets := m'\<rparr>) w err
             | (Inr s, m') \<Rightarrow> (Write w (FormatV s), app\<lparr>snippets := m'\<rparr>)))"

text \<open>The dummy content of \<open>createSnippet\<close>; the dash before the name is U+2013 in UTF-8.\<close>

definition dummy_content :: string where
  "dummy_content =
     ''O snail'' @ [CHR 0x0A] @ ''Climb Mount Fuji,'' @ [CHR 0x0A] @
     ''But slowly, slowly!'' @ [CHR 0x0A, CHR 0x0A] @
     [CHR 0xE2, CHR 0x80, CHR 0x93] @ '' Kobayashi Issa''"

definition createSnippet :: "application \<Rightarrow> ResponseWriter \<Rightarrow> Request \<Rightarrow> ResponseWriter \<times> application" where
  "createSnippet app w r =
     (if Method r \<noteq> ''POST'' then
        (let w1 = Header_Set w ''Allow'' ''POST''
         in (clientError app w1 StatusMethodNotAllowed, app))
      else
        (let title = ''O snail'';
             content = dummy_content;
             expires = ''7''
         in case Insert (snippets app) title content expires of
              (Inl err, m') \<Rightarrow> serverError (app\<lparr>snippets := m'\<rparr>) w err
            | (Inr i, m') \<Rightarrow>
                (Redirect w r (''/snippet?id='' @ fmt_d i) StatusSeeOther,
                 app\<lparr>snippets := m'\<rparr>)))"

subsection \<open>The earlier versions of createSnippet (unnamed/part_000, unnamed/part_001)\<close>

definition createSnippet_part_000 :: "application \<Rightarrow> ResponseWriter \<Rightarrow> Request \<Rightarrow> ResponseWriter \<times> application" where
  "createSnippet_part_000 app w r =
     (if Method r \<noteq> ''POST'' then
        (let w1 = Header_Set w ''Allow'' ''POST'';
             w2 = WriteHeader w1 405
         in (Write w2 (Bytes ''Method Not Allowed''), app))
      else (Write w (Bytes ''Create a new snippet...''), app))"

text \<open>
  In part_001 the \<open>return\<close> of the first branch is inside the line comment, so the
  function goes on to the write that follows the \<open>if\<close>.
\<close>

definition createSnippet_part_001 :: "application \<Rightarrow> ResponseWriter \<Rightarrow> Request \<Rightarrow> ResponseWriter \<times> application" where
  "createSnippet_part_001 app w r =
     (let w1 = (if Method r \<noteq> ''POST''
                then clientError app (Header_Set w ''Allow'' ''POST'') StatusMethodNotAllowed
                else w)
      in (Write w1 (Bytes ''Create a new snippet...''), app))"

text \<open>What was sent: the status code, and a header of the response.\<close>

definition StatusCode :: "ResponseWriter \<Rightarrow> nat option" where
  "StatusCode w = map_option fst (sent w)"

definition SentHeader :: "ResponseWriter \<Rightarrow> string \<Rightarrow> string list option" where
  "SentHeader w key = (case sent w of None \<Rightarrow> None | Some (_, h) \<Rightarrow> h key)"

section \<open>Reference definitions and example values\<close>

text \<open>
  The contract of \<open>Latest\<close> as the comment above the function and the specification
  state it, for comparison with the function: the ten most recently created snippets
  that have not expired, the most recent first.
\<close>

definition Latest_contract :: "database \<Rightarrow> Snippet list" where
  "Latest_contract m =
     map (\<lambda>r. \<lparr>ID = row_id r, Title = row_title r, Content = row_content r,
                Created = row_created r, Expires = row_expires r\<rparr>)
       (take 10 (rev (sort_key row_created
          (filter (\<lambda>r. row_expires r > utc_timestamp m) (snippets_table m)))))"

text \<open>
  The error values that are the storage layer's own: its "no rows" signal and whatever
  the driver reported. The sentinel of package models is not one of them.
\<close>

definition storage_native :: "error \<Rightarrow> bool" where
  "storage_native err =
     (case err of ErrNoRows \<Rightarrow> True | ErrNoRecord \<Rightarrow> False | DriverError _ \<Rightarrow> True)"

text \<open>The statements submitted between two states of the database.\<close>

definition new_statements :: "database \<Rightarrow> database \<Rightarrow> (string \<times> sqlval list) list" where
  "new_statements m m' = drop (length (submitted m)) (submitted m')"

text \<open>
  A database with one live and one expired snippet, at time 2000, and an error as the
  MySQL server reports it.
\<close>

definition example_db :: database where
  "example_db =
     \<lparr>snippets_table =
        [\<lparr>row_id = 1, row_title = ''first'', row_content = ''live'', row_created = 1000,
          row_expires = 605800\<rparr>,
         \<lparr>row_id = 2, row_title = ''second'', row_content = ''expired'', row_created = 10,
          row_expires = 500\<rparr>],
      auto_increment = 3, utc_timestamp = 2000, exec_fault = None,
      last_insert_id_fault = None, query_fault = None, submitted = []\<rparr>"

definition too_many_connections :: driver_error where
  "too_many_connections = MySQLError 1040 ''Too many connections''"

text \<open>
  A response writer as the server hands it to a handler, an application over the example
  database, one whose storage layer fails, and a request with a method and a query.
\<close>

definition new_writer :: ResponseWriter where
  "new_writer = \<lparr>Header = Map.empty, sent = None, body = []\<rparr>"

definition example_app :: application where
  "example_app = \<lparr>errorLog = [], infoLog = [], snippets = example_db\<rparr>"

definition request :: "string \<Rightarrow> Values \<Rightarrow> Request" where
  "request m q = \<lparr>Method = m, URL_Path = ''/snippet'', URL_Query = q, Body = [], PostForm = Map.empty\<rparr>"

definition failing_app :: application where
  "failing_app =
     \<lparr>errorLog = [], infoLog = [],
      snippets = example_db\<lparr>exec_fault := Some too_many_connections,
                             query_fault := Some too_many_connections\<rparr>\<rparr>"

section \<open>Properties of the data access object\<close>

subsection \<open>What Insert and Get compute\<close>

lemma interval_days_7: "interval_days ''7'' = Some 7"
  by (simp add: interval_days_def is_digit_def digits_value_def)

lemma Insert_ok:
  "exec_fault m = None \<Longrightarrow> last_insert_id_fault m = None \<Longrightarrow> interval_days e = Some n \<Longrightarrow>
   Insert m t c e = (Inr (auto_increment m),
     (submit m insert_stmt [SqlText t, SqlText c, SqlText e])\<lparr>snippets_table := snippets_table m @
        [\<lparr>row_id = auto_increment m, row_title = t, row_content = c, row_created = utc_timestamp m,
          row_expires = DATE_ADD_days (utc_timestamp m) n\<rparr>], auto_increment := auto_increment m + 1\<rparr>)"
  by (simp add: Insert_def DB_Exec_def LastInsertId_def)

lemma Insert_cases:
  "fst (Insert m t c e) =
     (case exec_fault m of
        Some d \<Rightarrow> Inl (DriverError d)
      | None \<Rightarrow>
          (case interval_days e of
             None \<Rightarrow> Inl (DriverError (MySQLError 1292 ''incorrect INTEGER value''))
           | Some n \<Rightarrow>
               (case last_insert_id_fault m of
                  Some d \<Rightarrow> Inl (DriverError d)
                | None \<Rightarrow> Inr (auto_increment m))))"
  by (simp add: Insert_def DB_Exec_def LastInsertId_def split: option.splits)

lemma Get_fst:
  "fst (Get m i) =
     (case query_fault m of
        Some e \<Rightarrow> Inl (DriverError e)
      | None \<Rightarrow>
         (case filter (\<lambda>r. row_expires r > utc_timestamp m \<and> row_id r = i) (snippets_table m) of
            [] \<Rightarrow> Inl ErrNoRecord
          | r # _ \<Rightarrow> Inr \<lparr>ID = row_id r, Title = row_title r, Content = row_content r,
                     Created = row_created r, Expires = row_expires r\<rparr>))"
  by (simp add: Get_def DB_QueryRow_def Scan_def zero_Snippet_def split: option.splits list.splits)

lemma Get_submitted:
  "snd (Get m i) = submit m select_stmt [SqlInt i]"
  by (simp add: Get_def DB_QueryRow_def Scan_def Let_def split: option.splits list.splits)

lemma Insert_submitted:
  "submitted (snd (Insert m t c e)) = submitted m @ [(insert_stmt, [SqlText t, SqlText c, SqlText e])]"
  by (simp add: Insert_def DB_Exec_def LastInsertId_def submit_def Let_def split: option.splits)

lemma filter_empty_iff_live:
  "(filter (\<lambda>r. row_expires r > now \<and> row_id r = i) rs = []) =
   (\<not> (\<exists>r\<in>set rs. row_id r = i \<and> now < row_expires r))"
  by (auto simp: filter_empty_conv)

lemma filter_hd_live:
  "filter (\<lambda>r. row_expires r > now \<and> row_id r = i) rs = r # rest \<Longrightarrow>
   r \<in> set rs \<and> row_id r = i \<and> now < row_expires r"
proof -
  assume a: "filter (\<lambda>r. row_expires r > now \<and> row_id r = i) rs = r # rest"
  have "r \<in> set (filter (\<lambda>r. row_expires r > now \<and> row_id r = i) rs)"
    by (simp add: a)
  then show ?thesis by simp
qed

text \<open>
  The keys of the table stay below the next auto-assigned key: Insert keeps this, so it
  holds of every database that started empty.
\<close>

lemma Insert_keeps_keys_below_next:
  assumes "\<forall>r\<in>set (snippets_table m). row_id r < auto_increment m"
  shows "\<forall>r\<in>set (snippets_table (snd (Insert m t c e))).
           row_id r < auto_increment (snd (Insert m t c e))"
  using assms
  by (auto simp: Insert_def DB_Exec_def LastInsertId_def submit_def Let_def
      split: option.splits)

subsection \<open>Get\<close>

text \<open>
  C1: without a failure of the storage layer, \<open>Get m i\<close> returns a snippet exactly when
  the table holds a row with identifier \<open>i\<close> whose \<open>expires\<close> is later than the current
  time, and the snippet is such a row; when there is no such row (a row with that
  identifier that has expired included) it fails with \<open>ErrNoRecord\<close>. It never fails with
  \<open>sql.ErrNoRows\<close>, and any failure of the storage layer is returned as it was reported.
\<close>

theorem Get_live_row_or_ErrNoRecord:
  "(query_fault m = None \<longrightarrow>
      ((\<exists>s. fst (Get m i) = Inr s) \<longleftrightarrow>
         (\<exists>r\<in>set (snippets_table m). row_id r = i \<and> utc_timestamp m < row_expires r)) \<and>
      (\<forall>s. fst (Get m i) = Inr s \<longrightarrow>
         (\<exists>r\<in>set (snippets_table m). row_id r = i \<and> utc_timestamp m < row_expires r \<and>
            s = \<lparr>ID = row_id r, Title = row_title r, Content = row_content r,
                 Created = row_created r, Expires = row_expires r\<rparr>)) \<and>
      (\<not> (\<exists>r\<in>set (snippets_table m). row_id r = i \<and> utc_timestamp m < row_expires r) \<longrightarrow>
         fst (Get m i) = Inl ErrNoRecord)) \<and>
   fst (Get m i) \<noteq> Inl ErrNoRows \<and>
   (\<forall>e. query_fault m = Some e \<longrightarrow> fst (Get m i) = Inl (DriverError e))"
proof -
  let ?live = "filter (\<lambda>r. row_expires r > utc_timestamp m \<and> row_id r = i) (snippets_table m)"
  let ?ex = "\<exists>r\<in>set (snippets_table m). row_id r = i \<and> utc_timestamp m < row_expires r"
  have never: "fst (Get m i) \<noteq> Inl ErrNoRows"
    by (simp add: Get_fst split: option.splits list.splits)
  have fault: "\<forall>e. query_fault m = Some e \<longrightarrow> fst (Get m i) = Inl (DriverError e)"
    by (simp add: Get_fst)
  have ok: "?thesis" if nf: "query_fault m = None"
  proof (cases ?live)
    case Nil
    then have "\<not> ?ex" using filter_empty_iff_live [of "utc_timestamp m" i "snippets_table m"] by simp
    moreover have "fst (Get m i) = Inl ErrNoRecord" using Nil nf by (simp add: Get_fst)
    ultimately show ?thesis using never fault by simp
  next
    case (Cons r rest)
    then have r: "r \<in> set (snippets_table m) \<and> row_id r = i \<and> utc_timestamp m < row_expires r"
      by (rule filter_hd_live)
    have g: "fst (Get m i) = Inr \<lparr>ID = row_id r, Title = row_title r, Content = row_content r,
                     Created = row_created r, Expires = row_expires r\<rparr>"
      using Cons nf by (simp add: Get_fst)
    show ?thesis using never fault r g by auto
  qed
  show ?thesis
  proof (cases "query_fault m")
    case None
    then show ?thesis by (rule ok)
  next
    case (Some e)
    then show ?thesis using never fault by simp
  qed
qed


theorem Get_live_row_or_ErrNoRecord_witness:
  "query_fault example_db = None \<and>
   fst (Get example_db 1) =
     Inr \<lparr>ID = 1, Title = ''first'', Content = ''live'', Created = 1000, Expires = 605800\<rparr> \<and>
   (\<exists>r\<in>set (snippets_table example_db). row_id r = 2) \<and>
   \<not> (\<exists>r\<in>set (snippets_table example_db). row_id r = 2 \<and> utc_timestamp example_db < row_expires r) \<and>
   fst (Get example_db 2) = Inl ErrNoRecord \<and>
   query_fault (example_db\<lparr>query_fault := Some too_many_connections\<rparr>) = Some too_many_connections \<and>
   fst (Get (example_db\<lparr>query_fault := Some too_many_connections\<rparr>) 1) =
     Inl (DriverError too_many_connections)"
  using Get_live_row_or_ErrNoRecord [of example_db 2]
    Get_live_row_or_ErrNoRecord [of example_db 1]
    Get_live_row_or_ErrNoRecord [of "example_db\<lparr>query_fault := Some too_many_connections\<rparr>" 1]
  by (simp add: example_db_def Get_fst)

subsection \<open>Insert, then Get\<close>

text \<open>
  C2: on a database without failures whose keys are all below the next auto-assigned
  key, inserting any title and content with \<open>expires = ''7''\<close> returns the new key, and Get
  on that key, \<open>d\<close> seconds later for any \<open>d\<close> under seven days (\<open>d = 0\<close> is "immediately"),
  returns a snippet with that title and content whose \<open>Expires\<close> is its \<open>Created\<close> plus
  seven days.
\<close>

theorem Insert_then_Get_round_trip:
  assumes nf: "exec_fault m = None" "last_insert_id_fault m = None" "query_fault m = None"
    and key: "\<forall>r\<in>set (snippets_table m). row_id r < auto_increment m"
    and d: "0 \<le> d" "d < 7 * seconds_per_day"
  shows "fst (Insert m title content ''7'') = Inr (auto_increment m) \<and>
         fst (Get ((snd (Insert m title content ''7''))
                     \<lparr>utc_timestamp := utc_timestamp m + d\<rparr>) (auto_increment m)) =
           Inr \<lparr>ID = auto_increment m, Title = title, Content = content,
                Created = utc_timestamp m, Expires = utc_timestamp m + 7 * seconds_per_day\<rparr>"
proof -
  have old: "filter (\<lambda>r. utc_timestamp m + d < row_expires r \<and> row_id r = auto_increment m)
               (snippets_table m) = []"
    using key by (auto simp: filter_empty_conv)
  have ins: "Insert m title content ''7'' = (Inr (auto_increment m),
     (submit m insert_stmt [SqlText title, SqlText content, SqlText ''7''])\<lparr>snippets_table := snippets_table m @
        [\<lparr>row_id = auto_increment m, row_title = title, row_content = content,
          row_created = utc_timestamp m,
          row_expires = DATE_ADD_days (utc_timestamp m) 7\<rparr>], auto_increment := auto_increment m + 1\<rparr>)"
    using nf(1,2) interval_days_7 by (rule Insert_ok)
  show ?thesis
    using nf(3) d old by (simp add: ins Get_fst submit_def DATE_ADD_days_def)
qed

theorem Insert_then_Get_round_trip_witness:
  "exec_fault example_db = None \<and> last_insert_id_fault example_db = None \<and>
   query_fault example_db = None \<and>
   list_all (\<lambda>r. row_id r < auto_increment example_db) (snippets_table example_db) \<and>
   (0::int) \<le> 1 \<and> 1 < 7 * seconds_per_day \<and>
   fst (Insert example_db ''O snail'' ''slowly'' ''7'') = Inr 3 \<and>
   fst (Get ((snd (Insert example_db ''O snail'' ''slowly'' ''7''))\<lparr>utc_timestamp := 2001\<rparr>) 3) =
     Inr \<lparr>ID = 3, Title = ''O snail'', Content = ''slowly'', Created = 2000, Expires = 606800\<rparr>"
proof -
  have h: "exec_fault example_db = None" "last_insert_id_fault example_db = None"
    "query_fault example_db = None"
    "\<forall>r\<in>set (snippets_table example_db). row_id r < auto_increment example_db"
    "(0::int) \<le> 1" "1 < 7 * seconds_per_day"
    by (simp_all add: example_db_def seconds_per_day_def)
  show ?thesis
    using h Insert_then_Get_round_trip [OF h, of "''O snail''" "''slowly''"]
    by (simp add: example_db_def seconds_per_day_def)
qed

subsection \<open>Errors that cross the boundary\<close>

text \<open>
  Insert returns an error of the driver as the driver reported it: a value of the storage
  layer, neither \<open>ErrNoRecord\<close> nor a storage-agnostic one.
\<close>

theorem DAO_returns_driver_error_counterexample:
  "fst (Insert (example_db\<lparr>exec_fault := Some too_many_connections\<rparr>) ''O snail'' ''slowly'' ''7'') =
     Inl (DriverError (MySQLError 1040 ''Too many connections'')) \<and>
   DriverError (MySQLError 1040 ''Too many connections'') \<noteq> ErrNoRecord \<and>
   storage_native (DriverError (MySQLError 1040 ''Too many connections''))"
  by (simp add: Insert_cases example_db_def too_many_connections_def storage_native_def)

text \<open>
  C3 (amended): for Insert and Get and every state of the storage layer, an error returned
  is \<open>ErrNoRecord\<close> (from Get only) or the failure the storage layer reported, unmodified;
  \<open>sql.ErrNoRows\<close> is never returned.
\<close>

theorem DAO_error_translation:
  "(fst (Insert m t c e) = Inl err \<longrightarrow>
      (\<exists>d. err = DriverError d \<and>
         (exec_fault m = Some d \<or> last_insert_id_fault m = Some d \<or>
          (interval_days e = None \<and> d = MySQLError 1292 ''incorrect INTEGER value'')))) \<and>
   (fst (Get m i) = Inl err \<longrightarrow>
      err = ErrNoRecord \<or> (\<exists>d. err = DriverError d \<and> query_fault m = Some d)) \<and>
   fst (Insert m t c e) \<noteq> Inl ErrNoRows \<and> fst (Get m i) \<noteq> Inl ErrNoRows"
proof -
  have a: "fst (Insert m t c e) = Inl err \<longrightarrow>
      (\<exists>d. err = DriverError d \<and>
         (exec_fault m = Some d \<or> last_insert_id_fault m = Some d \<or>
          (interval_days e = None \<and> d = MySQLError 1292 ''incorrect INTEGER value'')))"
    by (auto simp: Insert_cases split: option.splits)
  have b: "fst (Get m i) = Inl err \<longrightarrow>
      err = ErrNoRecord \<or> (\<exists>d. err = DriverError d \<and> query_fault m = Some d)"
    by (auto simp: Get_fst split: option.splits list.splits)
  have c: "fst (Insert m t c e) \<noteq> Inl ErrNoRows"
    by (simp add: Insert_cases split: option.splits)
  have d: "fst (Get m i) \<noteq> Inl ErrNoRows"
    by (simp add: Get_fst split: option.splits list.splits)
  show ?thesis using a b c d by blast
qed

theorem DAO_error_translation_witness:
  "fst (Insert (example_db\<lparr>last_insert_id_fault := Some too_many_connections\<rparr>) ''a'' ''b'' ''7'') =
     Inl (DriverError too_many_connections) \<and>
   fst (Get example_db 2) = Inl ErrNoRecord \<and>
   fst (Get (example_db\<lparr>query_fault := Some too_many_connections\<rparr>) 2) =
     Inl (DriverError too_many_connections)"
  using DAO_error_translation [of "example_db\<lparr>last_insert_id_fault := Some too_many_connections\<rparr>"
      "''a''" "''b''" "''7''" "DriverError too_many_connections" 2]
    DAO_error_translation [of example_db "''a''" "''b''" "''7''" ErrNoRecord 2]
    DAO_error_translation [of "example_db\<lparr>query_fault := Some too_many_connections\<rparr>"
      "''a''" "''b''" "''7''" "DriverError too_many_connections" 2]
  by (simp add: Insert_cases Get_fst interval_days_7 example_db_def)

subsection \<open>Latest\<close>

lemma Latest_contract_Nil:
  "(Latest_contract m = []) = (\<forall>r\<in>set (snippets_table m). row_expires r \<le> utc_timestamp m)"
proof -
  let ?live = "filter (\<lambda>r. row_expires r > utc_timestamp m) (snippets_table m)"
  have "(Latest_contract m = []) = (take 10 (rev (sort_key row_created ?live)) = [])"
    by (simp add: Latest_contract_def)
  also have "\<dots> = (sort_key row_created ?live = [])"
    by (simp add: take_eq_Nil)
  also have "\<dots> = (set (sort_key row_created ?live) = {})"
    by (simp only: set_empty)
  also have "\<dots> = (?live = [])"
    by (simp only: set_sort set_empty)
  also have "\<dots> = (\<forall>r\<in>set (snippets_table m). row_expires r \<le> utc_timestamp m)"
    by (simp add: filter_empty_conv not_less)
  finally show ?thesis .
qed

text \<open>
  C7: for every state of the storage, \<open>Latest\<close> returns the empty sequence and no error,
  and submits no statement; this is what its contract asks for only when no snippet is
  live.
\<close>

theorem Latest_returns_nothing:
  "fst (Latest m) = Inr [] \<and> snd (Latest m) = m \<and>
   ((fst (Latest m) = Inr (Latest_contract m)) =
      (\<forall>r\<in>set (snippets_table m). row_expires r \<le> utc_timestamp m))"
  using Latest_contract_Nil [of m] by (auto simp: Latest_def)

theorem Latest_returns_nothing_witness:
  "fst (Latest example_db) = Inr [] \<and> snd (Latest example_db) = example_db \<and>
   Latest_contract example_db =
     [\<lparr>ID = 1, Title = ''first'', Content = ''live'', Created = 1000, Expires = 605800\<rparr>] \<and>
   fst (Latest example_db) \<noteq> Inr (Latest_contract example_db) \<and>
   \<not> (\<forall>r\<in>set (snippets_table example_db). row_expires r \<le> utc_timestamp example_db)"
  using Latest_returns_nothing [of example_db]
  by (simp add: example_db_def Latest_contract_def)

subsection \<open>Statement texts\<close>

text \<open>
  C8: Insert submits exactly one statement, whose text is the constant \<open>insert_stmt\<close>
  whatever the title, content and expiry are, and Get exactly one, whose text is the
  constant \<open>select_stmt\<close> whatever the id is; the values of the caller travel as the
  values bound to the placeholders, of which each text has as many as there are values.
\<close>

theorem statement_text_is_constant:
  "new_statements m (snd (Insert m t c e)) = [(insert_stmt, [SqlText t, SqlText c, SqlText e])] \<and>
   new_statements m (snd (Get m i)) = [(select_stmt, [SqlInt i])] \<and>
   map fst (new_statements m (snd (Insert m t c e))) =
     map fst (new_statements m' (snd (Insert m' t' c' e'))) \<and>
   map fst (new_statements m (snd (Get m i))) = map fst (new_statements m' (snd (Get m' i'))) \<and>
   length (filter (\<lambda>ch. ch = CHR ''?'') insert_stmt) = 3 \<and>
   length (filter (\<lambda>ch. ch = CHR ''?'') select_stmt) = 1"
  by (simp add: new_statements_def Insert_submitted Get_submitted submit_def insert_stmt_def
      select_stmt_def)

theorem statement_text_is_constant_witness:
  "map fst (new_statements example_db (snd (Insert example_db ''a'' ''b'' ''7''))) =
     map fst (new_statements example_db
       (snd (Insert example_db ''x'' ''DROP TABLE snippets'' ''1 DAY); --''))) \<and>
   map fst (new_statements example_db (snd (Get example_db 1))) =
     map fst (new_statements example_db (snd (Get example_db 2)))"
  using statement_text_is_constant [of example_db "''a''" "''b''" "''7''" 1 example_db
      "''x''" "''DROP TABLE snippets''" "''1 DAY); --''" 2]
  by blast

section \<open>Properties of the handlers\<close>

subsection \<open>Responses\<close>

lemma Header_Set_fields:
  "body (Header_Set w k v) = body w"
  "sent (Header_Set w k v) = sent w"
  "Header (Header_Set w k v) = (Header w)(k \<mapsto> [v])"
  by (simp_all add: Header_Set_def)

lemma http_Error_fresh:
  "sent w = None \<Longrightarrow>
   http_Error w msg code =
     w\<lparr>Header := (Header w)(''Content-Type'' \<mapsto> [''text/plain; charset=utf-8''],
                              ''X-Content-Type-Options'' \<mapsto> [''nosniff'']),
       sent := Some (code, (Header w)(''Content-Type'' \<mapsto> [''text/plain; charset=utf-8''],
                              ''X-Content-Type-Options'' \<mapsto> [''nosniff''])),
       body := body w @ [Bytes (msg @ [CHR 0x0A])]\<rparr>"
  by (simp add: http_Error_def Header_Set_def WriteHeader_def Write_def)

lemma StatusCode_http_Error:
  "sent w = None \<Longrightarrow> StatusCode (http_Error w msg code) = Some code"
  by (simp add: http_Error_fresh StatusCode_def)

lemma StatusCode_notFound:
  "sent w = None \<Longrightarrow> StatusCode (notFound app w) = Some 404"
  by (simp add: notFound_def clientError_def StatusCode_http_Error StatusNotFound_def)

lemma StatusCode_serverError:
  "sent w = None \<Longrightarrow> StatusCode (fst (serverError app w err)) = Some 500"
  by (simp add: serverError_def StatusCode_http_Error StatusInternalServerError_def)

lemma Atoi_empty: "Atoi [] = None"
  by (simp add: Atoi_def)

subsection \<open>Numbers in URLs\<close>

text \<open>
  What \<open>%d\<close> prints, \<open>Atoi\<close> reads back: the identifier in the Location of a redirect
  is the identifier \<open>showSnippet\<close> parses from it.
\<close>

lemma is_digit_char_of: "d < 10 \<Longrightarrow> is_digit (char_of (48 + d :: nat))"
  by (simp add: is_digit_def)

lemma digit_value_char_of: "d < 10 \<Longrightarrow> (of_char (char_of (48 + d :: nat)) :: nat) - 48 = d"
  by simp

lemma digits_of_nat_all_digits: "list_all is_digit (digits_of_nat n)"
proof (induction n rule: digits_of_nat.induct)
  case (1 n)
  show ?case
  proof (cases "n < 10")
    case True
    then show ?thesis
      by (subst digits_of_nat.simps) (simp add: is_digit_char_of)
  next
    case False
    with 1 show ?thesis
      by (subst digits_of_nat.simps) (simp add: is_digit_char_of)
  qed
qed

lemma digits_of_nat_not_Nil: "digits_of_nat n \<noteq> []"
  by (subst digits_of_nat.simps) simp

lemma digits_value_snoc:
  "digits_value (ds @ [c]) = digits_value ds * 10 + ((of_char c :: nat) - 48)"
  by (simp add: digits_value_def)

lemma digits_value_digits_of_nat: "digits_value (digits_of_nat n) = n"
proof (induction n rule: digits_of_nat.induct)
  case (1 n)
  show ?case
  proof (cases "n < 10")
    case True
    then show ?thesis
      by (subst digits_of_nat.simps) (simp add: digits_value_def)
  next
    case False
    then have "digits_value (digits_of_nat n) =
        digits_value (digits_of_nat (n div 10)) * 10 + n mod 10"
      by (subst digits_of_nat.simps) (simp add: digits_value_snoc)
    with 1 False show ?thesis by simp
  qed
qed

lemma sign_split_digits: "list_all is_digit ds \<Longrightarrow> sign_split ds = (False, ds)"
  by (cases ds) (auto simp: is_digit_def)

lemma Atoi_fmt_d:
  assumes "- (2 ^ 63) \<le> i" and "i \<le> 2 ^ 63 - 1"
  shows "Atoi (fmt_d i) = Some i"
proof (cases "i < 0")
  case True
  then have "fmt_d i = CHR ''-'' # digits_of_nat (nat (- i))"
    by (simp add: fmt_d_def)
  then show ?thesis
    using True assms
    by (simp add: Atoi_def digits_of_nat_not_Nil digits_of_nat_all_digits
        digits_value_digits_of_nat)
next
  case False
  then have "fmt_d i = digits_of_nat (nat i)"
    by (simp add: fmt_d_def)
  then show ?thesis
    using False assms
    by (simp add: Atoi_def sign_split_digits digits_of_nat_not_Nil digits_of_nat_all_digits
        digits_value_digits_of_nat)
qed

subsection \<open>showSnippet\<close>

lemma showSnippet_bad_id:
  "(case Atoi (Values_Get (URL_Query r) ''id'') of None \<Rightarrow> True | Some i \<Rightarrow> i < 1) \<Longrightarrow>
   showSnippet app w r = (notFound app w, app)"
  by (simp add: showSnippet_def split: option.splits)

lemma showSnippet_good_id:
  "Atoi (Values_Get (URL_Query r) ''id'') = Some i \<Longrightarrow> 1 \<le> i \<Longrightarrow>
   showSnippet app w r =
     (case Get (snippets app) i of
        (Inl err, m') \<Rightarrow>
          if err = ErrNoRecord then (notFound app w, app\<lparr>snippets := m'\<rparr>)
          else serverError (app\<lparr>snippets := m'\<rparr>) w err
      | (Inr s, m') \<Rightarrow> (Write w (FormatV s), app\<lparr>snippets := m'\<rparr>))"
  by (simp add: showSnippet_def)

lemmas eval_Atoi = Atoi_def is_digit_def digits_value_def Values_Get_def request_def

text \<open>
  C4: on a fresh response, when the \<open>id\<close> of the query is missing, is not a number
  (\<open>Atoi\<close> fails), or is a number below 1, \<open>showSnippet\<close> answers as \<open>notFound\<close> does,
  with status 404, and leaves the application as it was: the database is not consulted,
  whatever its state. With a valid id, \<open>ErrNoRecord\<close> from Get gives status 404 and any
  other error from Get gives status 500.
\<close>

theorem showSnippet_not_found_and_errors:
  assumes fresh: "sent w = None"
  shows
    "(Atoi (Values_Get (URL_Query r) ''id'') = None \<longrightarrow>
        showSnippet app w r = (notFound app w, app)) \<and>
     (URL_Query r ''id'' = None \<longrightarrow> showSnippet app w r = (notFound app w, app)) \<and>
     (\<forall>i. Atoi (Values_Get (URL_Query r) ''id'') = Some i \<and> i < 1 \<longrightarrow>
        showSnippet app w r = (notFound app w, app)) \<and>
     StatusCode (notFound app w) = Some 404 \<and>
     (\<forall>i. Atoi (Values_Get (URL_Query r) ''id'') = Some i \<and> 1 \<le> i \<and>
          fst (Get (snippets app) i) = Inl ErrNoRecord \<longrightarrow>
        StatusCode (fst (showSnippet app w r)) = Some 404) \<and>
     (\<forall>i err. Atoi (Values_Get (URL_Query r) ''id'') = Some i \<and> 1 \<le> i \<and>
          fst (Get (snippets app) i) = Inl err \<and> err \<noteq> ErrNoRecord \<longrightarrow>
        StatusCode (fst (showSnippet app w r)) = Some 500)"
proof -
  have a: "Atoi (Values_Get (URL_Query r) ''id'') = None \<longrightarrow>
        showSnippet app w r = (notFound app w, app)"
    by (simp add: showSnippet_bad_id)
  have b: "URL_Query r ''id'' = None \<longrightarrow> showSnippet app w r = (notFound app w, app)"
    by (simp add: showSnippet_bad_id Values_Get_def Atoi_empty)
  have c: "\<forall>i. Atoi (Values_Get (URL_Query r) ''id'') = Some i \<and> i < 1 \<longrightarrow>
        showSnippet app w r = (notFound app w, app)"
    by (simp add: showSnippet_bad_id)
  have d: "StatusCode (notFound app w) = Some 404"
    using fresh by (rule StatusCode_notFound)
  have e: "\<forall>i. Atoi (Values_Get (URL_Query r) ''id'') = Some i \<and> 1 \<le> i \<and>
          fst (Get (snippets app) i) = Inl ErrNoRecord \<longrightarrow>
        StatusCode (fst (showSnippet app w r)) = Some 404"
  proof (intro allI impI, elim conjE)
    fix i
    assume i: "Atoi (Values_Get (URL_Query r) ''id'') = Some i" "1 \<le> i"
      and g: "fst (Get (snippets app) i) = Inl ErrNoRecord"
    obtain res m' where gm: "Get (snippets app) i = (res, m')" by (cases "Get (snippets app) i")
    with g have "res = Inl ErrNoRecord" by simp
    with gm i show "StatusCode (fst (showSnippet app w r)) = Some 404"
      using fresh by (simp add: showSnippet_good_id StatusCode_notFound)
  qed
  have f: "\<forall>i err. Atoi (Values_Get (URL_Query r) ''id'') = Some i \<and> 1 \<le> i \<and>
          fst (Get (snippets app) i) = Inl err \<and> err \<noteq> ErrNoRecord \<longrightarrow>
        StatusCode (fst (showSnippet app w r)) = Some 500"
  proof (intro allI impI, elim conjE)
    fix i err
    assume i: "Atoi (Values_Get (URL_Query r) ''id'') = Some i" "1 \<le> i"
      and g: "fst (Get (snippets app) i) = Inl err" and ne: "err \<noteq> ErrNoRecord"
    obtain res m' where gm: "Get (snippets app) i = (res, m')" by (cases "Get (snippets app) i")
    with g have "res = Inl err" by simp
    with gm i ne show "StatusCode (fst (showSnippet app w r)) = Some 500"
      using fresh by (simp add: showSnippet_good_id StatusCode_serverError)
  qed
  show ?thesis using a b c d e f by blast
qed

theorem showSnippet_not_found_and_errors_witness:
  "sent new_writer = None \<and>
   Atoi ''abc'' = None \<and>
   showSnippet example_app new_writer (request ''GET'' [''id'' \<mapsto> [''abc'']]) =
     (notFound example_app new_writer, example_app) \<and>
   showSnippet example_app new_writer (request ''GET'' Map.empty) =
     (notFound example_app new_writer, example_app) \<and>
   Atoi ''0'' = Some 0 \<and>
   showSnippet example_app new_writer (request ''GET'' [''id'' \<mapsto> [''0'']]) =
     (notFound example_app new_writer, example_app) \<and>
   StatusCode (notFound example_app new_writer) = Some 404 \<and>
   Atoi ''2'' = Some 2 \<and> fst (Get (snippets example_app) 2) = Inl ErrNoRecord \<and>
   StatusCode (fst (showSnippet example_app new_writer (request ''GET'' [''id'' \<mapsto> [''2'']]))) =
     Some 404 \<and>
   fst (Get (snippets failing_app) 2) = Inl (DriverError too_many_connections) \<and>
   StatusCode (fst (showSnippet failing_app new_writer (request ''GET'' [''id'' \<mapsto> [''2'']]))) =
     Some 500"
proof -
  have h: "sent new_writer = None" by (simp add: new_writer_def)
  show ?thesis
    using h
      showSnippet_not_found_and_errors [OF h, of "request ''GET'' [''id'' \<mapsto> [''abc'']]" example_app]
      showSnippet_not_found_and_errors [OF h, of "request ''GET'' Map.empty" example_app]
      showSnippet_not_found_and_errors [OF h, of "request ''GET'' [''id'' \<mapsto> [''0'']]" example_app]
      showSnippet_not_found_and_errors [OF h, of "request ''GET'' [''id'' \<mapsto> [''2'']]" example_app]
      showSnippet_not_found_and_errors [OF h, of "request ''GET'' [''id'' \<mapsto> [''2'']]" failing_app]
    by (simp add: eval_Atoi Get_fst example_app_def failing_app_def example_db_def)
qed

subsection \<open>createSnippet\<close>

lemma createSnippet_not_POST:
  "Method r \<noteq> ''POST'' \<Longrightarrow>
   createSnippet app w r =
     (http_Error (Header_Set w ''Allow'' ''POST'') ''Method Not Allowed'' 405, app)"
  by (simp add: createSnippet_def clientError_def StatusText_def StatusMethodNotAllowed_def)

text \<open>
  C5: for every request whose method is not POST, on a fresh response, \<open>createSnippet\<close>
  sends status 405 with the header \<open>Allow: POST\<close>, and returns with the application
  unchanged: Insert is not called.
\<close>

theorem createSnippet_method_not_allowed:
  assumes np: "Method r \<noteq> ''POST''" and fresh: "sent w = None"
  shows "createSnippet app w r =
           (clientError app (Header_Set w ''Allow'' ''POST'') StatusMethodNotAllowed, app) \<and>
         StatusCode (fst (createSnippet app w r)) = Some 405 \<and>
         SentHeader (fst (createSnippet app w r)) ''Allow'' = Some [''POST''] \<and>
         snd (createSnippet app w r) = app"
proof -
  have a: "createSnippet app w r =
      (clientError app (Header_Set w ''Allow'' ''POST'') StatusMethodNotAllowed, app)"
    using np by (simp add: createSnippet_def)
  have b: "StatusCode (fst (createSnippet app w r)) = Some 405 \<and>
         SentHeader (fst (createSnippet app w r)) ''Allow'' = Some [''POST''] \<and>
         snd (createSnippet app w r) = app"
    using np fresh
    by (simp add: createSnippet_not_POST http_Error_fresh Header_Set_def StatusCode_def
        SentHeader_def)
  show ?thesis by (rule conjI [OF a b])
qed

theorem createSnippet_method_not_allowed_witness:
  "Method (request ''GET'' Map.empty) \<noteq> ''POST'' \<and> sent new_writer = None \<and>
   StatusCode (fst (createSnippet example_app new_writer (request ''GET'' Map.empty))) = Some 405 \<and>
   SentHeader (fst (createSnippet example_app new_writer (request ''GET'' Map.empty))) ''Allow'' =
     Some [''POST''] \<and>
   snd (createSnippet example_app new_writer (request ''GET'' Map.empty)) = example_app"
proof -
  have h: "Method (request ''GET'' Map.empty) \<noteq> ''POST''" "sent new_writer = None"
    by (simp_all add: request_def new_writer_def)
  note t = createSnippet_method_not_allowed [OF h, of example_app]
  from t have c: "StatusCode (fst (createSnippet example_app new_writer
        (request ''GET'' Map.empty))) = Some 405"
    "SentHeader (fst (createSnippet example_app new_writer (request ''GET'' Map.empty))) ''Allow'' =
       Some [''POST'']"
    "snd (createSnippet example_app new_writer (request ''GET'' Map.empty)) = example_app"
    by blast+
  show ?thesis using h c by blast
qed

lemma createSnippet_POST:
  "Method r = ''POST'' \<Longrightarrow>
   createSnippet app w r =
     (case Insert (snippets app) ''O snail'' dummy_content ''7'' of
        (Inl err, m') \<Rightarrow> serverError (app\<lparr>snippets := m'\<rparr>) w err
      | (Inr i, m') \<Rightarrow>
          (Redirect w r (''/snippet?id='' @ fmt_d i) StatusSeeOther, app\<lparr>snippets := m'\<rparr>))"
  by (simp add: createSnippet_def)

lemma Redirect_POST:
  "Method r = ''POST'' \<Longrightarrow> sent w = None \<Longrightarrow>
   Redirect w r url code =
     w\<lparr>Header := (Header w)(''Location'' \<mapsto> [url]),
       sent := Some (code, (Header w)(''Location'' \<mapsto> [url]))\<rparr>"
  by (simp add: Redirect_def Header_Set_def WriteHeader_def Let_def)

lemma fmt_d_3: "fmt_d 3 = [CHR 0x33]"
  by code_simp

text \<open>
  C6: for every POST request, on a fresh response: when Insert succeeds with identifier
  \<open>n\<close>, \<open>createSnippet\<close> sends status 303 with \<open>Location: /snippet?id=n\<close> in decimal and
  writes no body, where \<open>n\<close> is the key the storage assigned, positive when the
  storage's next key is; when Insert fails, it sends status 500.
\<close>

theorem createSnippet_redirects_to_new_snippet:
  assumes post: "Method r = ''POST''" and fresh: "sent w = None"
  shows
    "(\<forall>n. fst (Insert (snippets app) ''O snail'' dummy_content ''7'') = Inr n \<longrightarrow>
        StatusCode (fst (createSnippet app w r)) = Some 303 \<and>
        SentHeader (fst (createSnippet app w r)) ''Location'' = Some [''/snippet?id='' @ fmt_d n] \<and>
        body (fst (createSnippet app w r)) = body w \<and>
        n = auto_increment (snippets app) \<and>
        (0 < auto_increment (snippets app) \<longrightarrow> 0 < n)) \<and>
     (\<forall>err. fst (Insert (snippets app) ''O snail'' dummy_content ''7'') = Inl err \<longrightarrow>
        StatusCode (fst (createSnippet app w r)) = Some 500)"
proof -
  obtain res m' where im: "Insert (snippets app) ''O snail'' dummy_content ''7'' = (res, m')"
    by (cases "Insert (snippets app) ''O snail'' dummy_content ''7''")
  have ok: "StatusCode (fst (createSnippet app w r)) = Some 303 \<and>
        SentHeader (fst (createSnippet app w r)) ''Location'' = Some [''/snippet?id='' @ fmt_d n] \<and>
        body (fst (createSnippet app w r)) = body w"
    if "res = Inr n" for n
    using that im post fresh
    by (simp add: createSnippet_POST Redirect_POST StatusCode_def SentHeader_def
        StatusSeeOther_def)
  have key: "n = auto_increment (snippets app)" if "res = Inr n" for n
    using that im Insert_cases [of "snippets app" "''O snail''" dummy_content "''7''"]
    by (simp split: option.splits)
  have bad: "StatusCode (fst (createSnippet app w r)) = Some 500" if "res = Inl err" for err
    using that im post fresh by (simp add: createSnippet_POST StatusCode_serverError)
  show ?thesis using ok key bad im by auto
qed

theorem createSnippet_redirects_to_new_snippet_witness:
  "Method (request ''POST'' Map.empty) = ''POST'' \<and> sent new_writer = None \<and>
   fst (Insert (snippets example_app) ''O snail'' dummy_content ''7'') = Inr 3 \<and>
   StatusCode (fst (createSnippet example_app new_writer (request ''POST'' Map.empty))) = Some 303 \<and>
   SentHeader (fst (createSnippet example_app new_writer (request ''POST'' Map.empty))) ''Location'' =
     Some [''/snippet?id=3''] \<and>
   fst (Insert (snippets failing_app) ''O snail'' dummy_content ''7'') =
     Inl (DriverError too_many_connections) \<and>
   StatusCode (fst (createSnippet failing_app new_writer (request ''POST'' Map.empty))) = Some 500"
proof -
  have h: "Method (request ''POST'' Map.empty) = ''POST''" "sent new_writer = None"
    by (simp_all add: request_def new_writer_def)
  have i: "fst (Insert (snippets example_app) ''O snail'' dummy_content ''7'') = Inr 3"
    "fst (Insert (snippets failing_app) ''O snail'' dummy_content ''7'') =
       Inl (DriverError too_many_connections)"
    by (simp_all add: Insert_cases interval_days_7 example_app_def failing_app_def example_db_def)
  show ?thesis
    using h i createSnippet_redirects_to_new_snippet [OF h, of example_app]
      createSnippet_redirects_to_new_snippet [OF h, of failing_app]
    by (simp add: fmt_d_3)
qed

text \<open>
  C9: for every POST request, \<open>createSnippet\<close> calls Insert with the title \<open>O snail\<close>, the
  fixed content and the expiry \<open>7\<close>: the database after the handler is the database after
  that call, the one statement submitted carries these three values, any two POST requests
  give the same response and the same application whatever else they hold, and when the
  statement is executed the row added has this title and content and expires seven days
  after its creation.
\<close>

theorem createSnippet_ignores_request:
  assumes post: "Method r = ''POST''"
  shows
    "snippets (snd (createSnippet app w r)) =
       snd (Insert (snippets app) ''O snail'' dummy_content ''7'') \<and>
     new_statements (snippets app) (snippets (snd (createSnippet app w r))) =
       [(insert_stmt, [SqlText ''O snail'', SqlText dummy_content, SqlText ''7''])] \<and>
     (Method r' = ''POST'' \<longrightarrow> createSnippet app w r' = createSnippet app w r) \<and>
     (exec_fault (snippets app) = None \<longrightarrow>
        snippets_table (snippets (snd (createSnippet app w r))) =
          snippets_table (snippets app) @
            [\<lparr>row_id = auto_increment (snippets app), row_title = ''O snail'',
              row_content = dummy_content, row_created = utc_timestamp (snippets app),
              row_expires = utc_timestamp (snippets app) + 7 * seconds_per_day\<rparr>])"
proof -
  obtain res m' where im: "Insert (snippets app) ''O snail'' dummy_content ''7'' = (res, m')"
    by (cases "Insert (snippets app) ''O snail'' dummy_content ''7''")
  have a: "snippets (snd (createSnippet app w r)) =
       snd (Insert (snippets app) ''O snail'' dummy_content ''7'')"
    using post im by (cases res) (simp_all add: createSnippet_POST serverError_def)
  have b: "new_statements (snippets app) (snippets (snd (createSnippet app w r))) =
       [(insert_stmt, [SqlText ''O snail'', SqlText dummy_content, SqlText ''7''])]"
    by (simp add: a new_statements_def Insert_submitted)
  have c: "Method r' = ''POST'' \<longrightarrow> createSnippet app w r' = createSnippet app w r"
    using post
    by (simp add: createSnippet_POST Redirect_def split: prod.splits sum.splits)
  have d: "exec_fault (snippets app) = None \<longrightarrow>
        snippets_table (snippets (snd (createSnippet app w r))) =
          snippets_table (snippets app) @
            [\<lparr>row_id = auto_increment (snippets app), row_title = ''O snail'',
              row_content = dummy_content, row_created = utc_timestamp (snippets app),
              row_expires = utc_timestamp (snippets app) + 7 * seconds_per_day\<rparr>]"
    by (simp add: a Insert_def DB_Exec_def LastInsertId_def interval_days_7 submit_def
        DATE_ADD_days_def Let_def split: option.splits)
  show ?thesis using a b c d by blast
qed

theorem createSnippet_ignores_request_witness:
  "Method (request ''POST'' Map.empty) = ''POST'' \<and>
   Method ((request ''POST'' [''title'' \<mapsto> [''mine'']])\<lparr>Body := ''content=mine&expires=365''\<rparr>) = ''POST'' \<and>
   createSnippet example_app new_writer
       ((request ''POST'' [''title'' \<mapsto> [''mine'']])\<lparr>Body := ''content=mine&expires=365''\<rparr>) =
     createSnippet example_app new_writer (request ''POST'' Map.empty) \<and>
   new_statements (snippets example_app)
       (snippets (snd (createSnippet example_app new_writer (request ''POST'' Map.empty)))) =
     [(insert_stmt, [SqlText ''O snail'', SqlText dummy_content, SqlText ''7''])] \<and>
   exec_fault (snippets example_app) = None \<and>
   snippets_table (snippets (snd (createSnippet example_app new_writer
       (request ''POST'' Map.empty)))) =
     snippets_table example_db @
       [\<lparr>row_id = 3, row_title = ''O snail'', row_content = dummy_content, row_created = 2000,
         row_expires = 606800\<rparr>]"
proof -
  have h: "Method (request ''POST'' Map.empty) = ''POST''"
    by (simp add: request_def)
  have h': "Method ((request ''POST'' [''title'' \<mapsto> [''mine'']])\<lparr>Body := ''content=mine&expires=365''\<rparr>) = ''POST''"
    by (simp add: request_def)
  have db: "exec_fault (snippets example_app) = None"
    "snippets_table (snippets example_app) = snippets_table example_db"
    "auto_increment (snippets example_app) = 3"
    "utc_timestamp (snippets example_app) + 7 * seconds_per_day = 606800"
    "utc_timestamp (snippets example_app) = 2000"
    by (simp_all add: example_app_def example_db_def seconds_per_day_def)
  note t = createSnippet_ignores_request [OF h, of example_app new_writer
        "(request ''POST'' [''title'' \<mapsto> [''mine'']])\<lparr>Body := ''content=mine&expires=365''\<rparr>"]
  from t h' have c1: "createSnippet example_app new_writer
       ((request ''POST'' [''title'' \<mapsto> [''mine'']])\<lparr>Body := ''content=mine&expires=365''\<rparr>) =
     createSnippet example_app new_writer (request ''POST'' Map.empty)"
    by blast
  from t have c2: "new_statements (snippets example_app)
       (snippets (snd (createSnippet example_app new_writer (request ''POST'' Map.empty)))) =
     [(insert_stmt, [SqlText ''O snail'', SqlText dummy_content, SqlText ''7''])]"
    by blast
  from t db(1) have "snippets_table (snippets (snd (createSnippet example_app new_writer
       (request ''POST'' Map.empty)))) =
          snippets_table (snippets example_app) @
            [\<lparr>row_id = auto_increment (snippets example_app), row_title = ''O snail'',
              row_content = dummy_content, row_created = utc_timestamp (snippets example_app),
              row_expires = utc_timestamp (snippets example_app) + 7 * seconds_per_day\<rparr>]"
    by blast
  then have c3: "snippets_table (snippets (snd (createSnippet example_app new_writer
       (request ''POST'' Map.empty)))) =
     snippets_table example_db @
       [\<lparr>row_id = 3, row_title = ''O snail'', row_content = dummy_content, row_created = 2000,
         row_expires = 606800\<rparr>]"
    by (simp add: db(2,3,5) seconds_per_day_def)
  show ?thesis using h h' c1 c2 db(1) c3 by blast
qed

text \<open>
  The scenario of the specification: after a POST to \<open>createSnippet\<close> on a storage
  without failures, a request for the identifier of the redirect writes the snippet with
  the inserted title and content.
\<close>

lemma createSnippet_then_showSnippet:
  assumes nf: "exec_fault (snippets app) = None" "last_insert_id_fault (snippets app) = None"
      "query_fault (snippets app) = None"
    and key: "\<forall>r\<in>set (snippets_table (snippets app)). row_id r < auto_increment (snippets app)"
    and range: "0 < auto_increment (snippets app)" "auto_increment (snippets app) \<le> 2 ^ 63 - 1"
    and post: "Method r = ''POST''"
    and q: "URL_Query r' ''id'' = Some [fmt_d (auto_increment (snippets app))]"
  shows "fst (showSnippet (snd (createSnippet app w r)) w' r') =
           Write w' (FormatV \<lparr>ID = auto_increment (snippets app), Title = ''O snail'',
             Content = dummy_content, Created = utc_timestamp (snippets app),
             Expires = utc_timestamp (snippets app) + 7 * seconds_per_day\<rparr>)"
proof -
  let ?m = "snippets app"
  let ?n = "auto_increment ?m"
  let ?m' = "snd (Insert ?m ''O snail'' dummy_content ''7'')"
  have ins: "Insert ?m ''O snail'' dummy_content ''7'' = (Inr ?n,
     (submit ?m insert_stmt [SqlText ''O snail'', SqlText dummy_content, SqlText ''7''])
       \<lparr>snippets_table := snippets_table ?m @
        [\<lparr>row_id = ?n, row_title = ''O snail'', row_content = dummy_content,
          row_created = utc_timestamp ?m,
          row_expires = DATE_ADD_days (utc_timestamp ?m) 7\<rparr>], auto_increment := ?n + 1\<rparr>)"
    using nf(1,2) interval_days_7 by (rule Insert_ok)
  have app': "snd (createSnippet app w r) = app\<lparr>snippets := ?m'\<rparr>"
    using post by (simp add: createSnippet_POST ins)
  have old: "filter (\<lambda>r. utc_timestamp ?m < row_expires r \<and> row_id r = ?n)
               (snippets_table ?m) = []"
    using key by (auto simp: filter_empty_conv)
  have get: "fst (Get ?m' ?n) =
      Inr \<lparr>ID = ?n, Title = ''O snail'', Content = dummy_content,
           Created = utc_timestamp ?m, Expires = utc_timestamp ?m + 7 * seconds_per_day\<rparr>"
    using nf(3) old
    by (simp add: ins Get_fst submit_def DATE_ADD_days_def seconds_per_day_def)
  have id: "Atoi (Values_Get (URL_Query r') ''id'') = Some ?n"
    using range by (simp add: Values_Get_def q Atoi_fmt_d)
  have "fst (showSnippet (app\<lparr>snippets := ?m'\<rparr>) w' r') =
      Write w' (FormatV \<lparr>ID = ?n, Title = ''O snail'', Content = dummy_content,
           Created = utc_timestamp ?m, Expires = utc_timestamp ?m + 7 * seconds_per_day\<rparr>)"
    using get range(1)
    by (cases "Get ?m' ?n") (simp add: showSnippet_good_id [OF id])
  then show ?thesis by (simp only: app')
qed

subsection \<open>The three versions of createSnippet\<close>

text \<open>
  C10: for a request whose method is not POST, on a fresh response, the version of
  part_001 is the response of the version of handlers.go with one more write, the body
  \<open>Create a new snippet...\<close>, after the 405 was sent; the versions of handlers.go and of
  part_000 stop after their 405 response, and the version of part_001 differs from both.
\<close>

theorem createSnippet_part_001_falls_through:
  assumes np: "Method r \<noteq> ''POST''" and fresh: "sent w = None"
  shows
    "createSnippet_part_001 app w r =
       (Write (clientError app (Header_Set w ''Allow'' ''POST'') StatusMethodNotAllowed)
          (Bytes ''Create a new snippet...''), app) \<and>
     createSnippet app w r =
       (clientError app (Header_Set w ''Allow'' ''POST'') StatusMethodNotAllowed, app) \<and>
     fst (createSnippet_part_001 app w r) =
       Write (fst (createSnippet app w r)) (Bytes ''Create a new snippet...'') \<and>
     StatusCode (fst (createSnippet_part_001 app w r)) = Some 405 \<and>
     body (fst (createSnippet_part_001 app w r)) =
       body (fst (createSnippet app w r)) @ [Bytes ''Create a new snippet...''] \<and>
     body (fst (createSnippet app w r)) = body w @ [Bytes (''Method Not Allowed'' @ [CHR 0x0A])] \<and>
     body (fst (createSnippet_part_000 app w r)) = body w @ [Bytes ''Method Not Allowed''] \<and>
     StatusCode (fst (createSnippet app w r)) = Some 405 \<and>
     StatusCode (fst (createSnippet_part_000 app w r)) = Some 405 \<and>
     createSnippet_part_001 app w r \<noteq> createSnippet app w r \<and>
     createSnippet_part_001 app w r \<noteq> createSnippet_part_000 app w r"
proof -
  have p1: "createSnippet_part_001 app w r =
      (Write (http_Error (Header_Set w ''Allow'' ''POST'') ''Method Not Allowed'' 405)
         (Bytes ''Create a new snippet...''), app)"
    using np
    by (simp add: createSnippet_part_001_def clientError_def StatusText_def
        StatusMethodNotAllowed_def)
  have h: "sent (Header_Set w ''Allow'' ''POST'') = None"
    using fresh by (simp add: Header_Set_fields)
  note e = http_Error_fresh [OF h]
  have p0: "createSnippet_part_000 app w r =
      (Write (WriteHeader (Header_Set w ''Allow'' ''POST'') 405)
         (Bytes ''Method Not Allowed''), app)"
    using np by (simp add: createSnippet_part_000_def)
  have b1: "body (fst (createSnippet_part_001 app w r)) =
      body w @ [Bytes (''Method Not Allowed'' @ [CHR 0x0A]), Bytes ''Create a new snippet...'']"
    by (simp add: p1 e Write_def Header_Set_fields)
  have bh: "body (fst (createSnippet app w r)) = body w @ [Bytes (''Method Not Allowed'' @ [CHR 0x0A])]"
    by (simp add: createSnippet_not_POST [OF np] e Header_Set_fields)
  have b0: "body (fst (createSnippet_part_000 app w r)) = body w @ [Bytes ''Method Not Allowed'']"
    using fresh by (simp add: p0 Write_def WriteHeader_def Header_Set_fields)
  have s1: "StatusCode (fst (createSnippet_part_001 app w r)) = Some 405"
    by (simp add: p1 e Write_def StatusCode_def)
  have sh: "StatusCode (fst (createSnippet app w r)) = Some 405"
    by (simp add: createSnippet_not_POST [OF np] e StatusCode_def)
  have s0: "StatusCode (fst (createSnippet_part_000 app w r)) = Some 405"
    using fresh by (simp add: p0 Write_def WriteHeader_def Header_Set_fields StatusCode_def)
  have w1: "fst (createSnippet_part_001 app w r) =
       Write (fst (createSnippet app w r)) (Bytes ''Create a new snippet...'')"
    by (simp add: p1 createSnippet_not_POST [OF np])
  have n1: "createSnippet_part_001 app w r \<noteq> createSnippet app w r"
  proof
    assume "createSnippet_part_001 app w r = createSnippet app w r"
    then have "body (fst (createSnippet_part_001 app w r)) = body (fst (createSnippet app w r))"
      by simp
    then show False by (simp add: b1 bh)
  qed
  have n0: "createSnippet_part_001 app w r \<noteq> createSnippet_part_000 app w r"
  proof
    assume "createSnippet_part_001 app w r = createSnippet_part_000 app w r"
    then have "body (fst (createSnippet_part_001 app w r)) =
        body (fst (createSnippet_part_000 app w r))"
      by simp
    then show False by (simp add: b1 b0)
  qed
  have c1: "createSnippet_part_001 app w r =
       (Write (clientError app (Header_Set w ''Allow'' ''POST'') StatusMethodNotAllowed)
          (Bytes ''Create a new snippet...''), app)"
    using np by (simp add: createSnippet_part_001_def)
  have ch: "createSnippet app w r =
       (clientError app (Header_Set w ''Allow'' ''POST'') StatusMethodNotAllowed, app)"
    using np by (simp add: createSnippet_def)
  have b1': "body (fst (createSnippet_part_001 app w r)) =
       body (fst (createSnippet app w r)) @ [Bytes ''Create a new snippet...'']"
    by (simp add: b1 bh)
  show ?thesis
    by (intro conjI) (fact c1 ch w1 s1 b1' bh b0 sh s0 n1 n0)+
qed

theorem createSnippet_part_001_falls_through_witness:
  "Method (request ''GET'' Map.empty) \<noteq> ''POST'' \<and> sent new_writer = None \<and>
   body (fst (createSnippet_part_001 example_app new_writer (request ''GET'' Map.empty))) =
     [Bytes (''Method Not Allowed'' @ [CHR 0x0A]), Bytes ''Create a new snippet...''] \<and>
   body (fst (createSnippet example_app new_writer (request ''GET'' Map.empty))) =
     [Bytes (''Method Not Allowed'' @ [CHR 0x0A])] \<and>
   body (fst (createSnippet_part_000 example_app new_writer (request ''GET'' Map.empty))) =
     [Bytes ''Method Not Allowed''] \<and>
   StatusCode (fst (createSnippet_part_001 example_app new_writer (request ''GET'' Map.empty))) =
     Some 405"
proof -
  have h: "Method (request ''GET'' Map.empty) \<noteq> ''POST''" "sent new_writer = None"
    by (simp_all add: request_def new_writer_def)
  have b: "body new_writer = []" by (simp add: new_writer_def)
  note t = createSnippet_part_001_falls_through [OF h, of example_app]
  from t have c1: "body (fst (createSnippet_part_001 example_app new_writer (request ''GET'' Map.empty))) =
       body (fst (createSnippet example_app new_writer (request ''GET'' Map.empty))) @
         [Bytes ''Create a new snippet...'']"
    by blast
  from t have c2: "body (fst (createSnippet example_app new_writer (request ''GET'' Map.empty))) =
      body new_writer @ [Bytes (''Method Not Allowed'' @ [CHR 0x0A])]"
    by blast
  from t have c3: "body (fst (createSnippet_part_000 example_app new_writer (request ''GET'' Map.empty))) =
      body new_writer @ [Bytes ''Method Not Allowed'']"
    by blast
  from t have c4: "StatusCode (fst (createSnippet_part_001 example_app new_writer
      (request ''GET'' Map.empty))) = Some 405"
    by blast
  show ?thesis using h c4 by (simp add: c1 c2 c3 b)
qed

end
